theory Spec2Isabelle
  imports Complex_Main "HOL-Library.AList" "HOL-Library.Log_Nat"
begin

section \<open>Python values, dictionaries and exceptions\<close>

text \<open>
  The agents and activities work on JSON-like Python values held in dictionaries.
  \<open>PInt\<close> is a Python \<open>int\<close> (unbounded). A Python \<open>float\<close> is an IEEE double:
  \<open>PNum r\<close> is the finite double whose exact value is the rational \<open>r\<close>, and
  \<open>PPosInf\<close>, \<open>PNegInf\<close> and \<open>PNaN\<close> are the infinities and the not-a-number that
  \<open>json.loads\<close> reads from \<open>Infinity\<close>, \<open>-Infinity\<close> and \<open>NaN\<close>. The two float zeros,
  which Python's \<open>==\<close> does not tell apart, are both \<open>PNum 0\<close>. A dictionary is an
  association list read with \<open>map_of\<close> and updated in place with \<open>AList.update\<close>, as a
  Python \<open>dict\<close> keeps its insertion order.
\<close>

datatype pyval =
    PNone
  | PBool bool
  | PInt int
  | PNum rat
  | PPosInf
  | PNegInf
  | PNaN
  | PStr string
  | PList "pyval list"
  | PDict "(string \<times> pyval) list"

type_synonym pydict = "(string \<times> pyval) list"

text \<open>\<open>d.get(k)\<close> and \<open>d.get(k, default)\<close>.\<close>

definition py_get :: "pydict \<Rightarrow> string \<Rightarrow> pyval" where
  "py_get d k = (case map_of d k of None \<Rightarrow> PNone | Some v \<Rightarrow> v)"

definition py_get_default :: "pydict \<Rightarrow> string \<Rightarrow> pyval \<Rightarrow> pyval" where
  "py_get_default d k dflt = (case map_of d k of None \<Rightarrow> dflt | Some v \<Rightarrow> v)"

text \<open>Truth value of a Python object, as \<open>and\<close>, \<open>or\<close>, \<open>not\<close> and \<open>if\<close> test it.\<close>

fun truthy :: "pyval \<Rightarrow> bool" where
  "truthy PNone = False"
| "truthy (PBool b) = b"
| "truthy (PInt i) = (i \<noteq> 0)"
| "truthy (PNum r) = (r \<noteq> 0)"
| "truthy PPosInf = True"
| "truthy PNegInf = True"
| "truthy PNaN = True"
| "truthy (PStr s) = (s \<noteq> [])"
| "truthy (PList xs) = (xs \<noteq> [])"
| "truthy (PDict kvs) = (kvs \<noteq> [])"

text \<open>
  \<open>isinstance(v, float)\<close> and \<open>isinstance(v, (int, float))\<close>: \<open>bool\<close> is a subclass of
  \<open>int\<close>.
\<close>

fun is_float :: "pyval \<Rightarrow> bool" where
  "is_float (PNum r) = True"
| "is_float PPosInf = True"
| "is_float PNegInf = True"
| "is_float PNaN = True"
| "is_float v = False"

fun is_number :: "pyval \<Rightarrow> bool" where
  "is_number (PInt i) = True"
| "is_number (PBool b) = True"
| "is_number v = is_float v"

text \<open>
  The exact value of an \<open>int\<close>, a \<open>bool\<close> or a finite \<open>float\<close>; only read for these.
\<close>

fun num_of :: "pyval \<Rightarrow> rat" where
  "num_of (PNum r) = r"
| "num_of (PInt i) = of_int i"
| "num_of (PBool b) = (if b then 1 else 0)"
| "num_of v = 0"

text \<open>The value of an \<open>int\<close> or a \<open>bool\<close>.\<close>

fun int_of :: "pyval \<Rightarrow> int" where
  "int_of (PInt i) = i"
| "int_of (PBool b) = (if b then 1 else 0)"
| "int_of v = 0"

text \<open>
  The comparisons \<open>a < b\<close>, \<open>a <= b\<close>, \<open>a > b\<close> and \<open>a >= b\<close> of two numbers. Python
  compares an \<open>int\<close> with a \<open>float\<close> by their exact values; every comparison with a
  NaN is false.
\<close>

definition num_lt :: "pyval \<Rightarrow> pyval \<Rightarrow> bool" where
  "num_lt a b =
     (a \<noteq> PNaN \<and> b \<noteq> PNaN \<and> a \<noteq> PPosInf \<and> b \<noteq> PNegInf \<and>
      (a = PNegInf \<or> b = PPosInf \<or> num_of a < num_of b))"

definition num_le :: "pyval \<Rightarrow> pyval \<Rightarrow> bool" where
  "num_le a b =
     (a \<noteq> PNaN \<and> b \<noteq> PNaN \<and>
      (a = PNegInf \<or> b = PPosInf \<or> (a \<noteq> PPosInf \<and> b \<noteq> PNegInf \<and> num_of a \<le> num_of b)))"

definition num_gt :: "pyval \<Rightarrow> pyval \<Rightarrow> bool" where
  "num_gt a b = num_lt b a"

definition num_ge :: "pyval \<Rightarrow> pyval \<Rightarrow> bool" where
  "num_ge a b = num_le b a"

text \<open>
  Exceptions. \<open>ValueError p v\<close> is the error of the score validation for provider \<open>p\<close> and
  offending score \<open>v\<close>; \<open>External msg\<close> is any exception raised by an external call (HTTP
  client, language model, Temporal client) with its text.
\<close>

datatype exn =
    TypeError
  | ZeroDivisionError
  | OverflowError
  | KeyError
  | ValueError string pyval
  | ValidationError "string list"
  | External string

section \<open>Float arithmetic\<close>

text \<open>
  Rounding of an exact result to a double: to the nearest of the values
  \<open>m * 2 ^ (e - 52)\<close> with a 53-bit \<open>m\<close> and \<open>e\<close> the binary exponent of the argument
  (not below that of the subnormal numbers, -1022), a tie going to the even \<open>m\<close>; a
  result of magnitude \<open>2 ^ 1024\<close> or more is an infinity.
\<close>

definition pow2 :: "int \<Rightarrow> rat" where
  "pow2 k = (if k \<ge> 0 then 2 ^ nat k else 1 / 2 ^ nat (- k))"

text \<open>The binary exponent \<open>\<lfloor>log\<^sub>2 a\<rfloor>\<close> of a positive rational.\<close>

definition ilog2 :: "rat \<Rightarrow> int" where
  "ilog2 a =
     (case quotient_of a of
        (n, d) \<Rightarrow> (let k = bitlen n - bitlen d in if pow2 k \<le> a then k else k - 1))"

definition round_half_even :: "rat \<Rightarrow> int" where
  "round_half_even y =
     (let f = \<lfloor>y\<rfloor>; d = y - of_int f
      in if d < 1 / 2 then f else if d > 1 / 2 then f + 1 else if even f then f else f + 1)"

definition fl :: "rat \<Rightarrow> pyval" where
  "fl x =
     (if x = 0 then PNum 0
      else (let a = \<bar>x\<bar>;
                e = max (ilog2 a) (- 1022);
                q = pow2 (e - 52);
                m = of_int (round_half_even (a / q)) * q
            in if m \<ge> pow2 1024 then (if x < 0 then PNegInf else PPosInf)
               else PNum (if x < 0 then - m else m)))"

text \<open>
  The conversion of an operand to \<open>float\<close> in mixed arithmetic: a float stays, an
  \<open>int\<close> is rounded, and one too large raises \<open>OverflowError\<close>.
\<close>

definition to_float :: "pyval \<Rightarrow> exn + pyval" where
  "to_float v =
     (if is_float v then Inr v
      else (case fl (num_of v) of PNum r \<Rightarrow> Inr (PNum r) | _ \<Rightarrow> Inl OverflowError))"

text \<open>
  The IEEE operations on two floats. They raise nothing: an overflow gives an infinity
  and an undefined result a NaN. \<open>float_truediv\<close> is only applied to a divisor other
  than zero.
\<close>

definition is_inf :: "pyval \<Rightarrow> bool" where
  "is_inf v = (v = PPosInf \<or> v = PNegInf)"

text \<open>A number other than an infinity or a NaN: \<open>math.isfinite\<close>.\<close>

definition finite_number :: "pyval \<Rightarrow> bool" where
  "finite_number v = (is_number v \<and> \<not> is_inf v \<and> v \<noteq> PNaN)"

definition is_negative :: "pyval \<Rightarrow> bool" where
  "is_negative v = (v = PNegInf \<or> num_of v < 0)"

definition float_mul :: "pyval \<Rightarrow> pyval \<Rightarrow> pyval" where
  "float_mul a b =
     (if a = PNaN \<or> b = PNaN then PNaN
      else if is_inf a \<or> is_inf b then
        (if a = PNum 0 \<or> b = PNum 0 then PNaN
         else if is_negative a = is_negative b then PPosInf else PNegInf)
      else fl (num_of a * num_of b))"

definition float_truediv :: "pyval \<Rightarrow> pyval \<Rightarrow> pyval" where
  "float_truediv a b =
     (if a = PNaN \<or> b = PNaN then PNaN
      else if is_inf a then
        (if is_inf b then PNaN
         else if is_negative a = is_negative b then PPosInf else PNegInf)
      else if is_inf b then PNum 0
      else fl (num_of a / num_of b))"

definition float_sub :: "pyval \<Rightarrow> pyval \<Rightarrow> pyval" where
  "float_sub a b =
     (if a = PNaN \<or> b = PNaN then PNaN
      else if is_inf a then (if a = b then PNaN else a)
      else if b = PPosInf then PNegInf
      else if b = PNegInf then PPosInf
      else fl (num_of a - num_of b))"

section \<open>Credit risk classification\<close>

text \<open>\<open>CreditAssessmentAgent._determine_risk_level\<close>.\<close>

definition determine_risk_level :: "rat \<Rightarrow> string" where
  "determine_risk_level score =
     (if score \<ge> 750 then ''low''
      else if score \<ge> 650 then ''medium''
      else if score \<ge> 620 then ''medium-high''
      else ''high'')"

text \<open>
  The \<open>validate_credit_score\<close> tool, in its two copies: the LangChain wrapper
  \<open>validate_credit_score_tool(score, minimum_required = 620)\<close>, whose result is the
  dictionary it serialises, and the \<open>validate_credit_score\<close> branch of the MCP server's
  \<open>call_tool\<close>, which reads its arguments from a dictionary.
\<close>

definition validate_credit_score_tool :: "rat \<Rightarrow> rat \<Rightarrow> pydict" where
  "validate_credit_score_tool score minimum_required =
     (let is_valid = (score \<ge> minimum_required);
          risk_level = (if score \<ge> 750 then ''low'' else if score \<ge> 650 then ''medium'' else ''high'')
      in [(''score'', PNum score),
          (''minimum_required'', PNum minimum_required),
          (''is_valid'', PBool is_valid),
          (''risk_level'', PStr risk_level),
          (''recommendation'', PStr (if is_valid then ''approve'' else ''reject''))])"

definition call_tool_validate_credit_score :: "pydict \<Rightarrow> exn + pydict" where
  "call_tool_validate_credit_score arguments =
     (case map_of arguments ''score'' of
        None \<Rightarrow> Inl KeyError
      | Some score \<Rightarrow>
          (let minimum_required = py_get_default arguments ''minimum_required'' (PInt 620)
           in if is_number score \<and> is_number minimum_required then
                (let is_valid = num_ge score minimum_required;
                     risk_level = (if num_ge score (PInt 750) then ''low''
                                   else if num_ge score (PInt 650) then ''medium'' else ''high'')
                 in Inr [(''score'', score),
                         (''minimum_required'', minimum_required),
                         (''is_valid'', PBool is_valid),
                         (''risk_level'', PStr risk_level),
                         (''recommendation'', PStr (if is_valid then ''approve'' else ''reject''))])
              else Inl TypeError))"

section \<open>Income and expense assessment\<close>

text \<open>
  The Python operators the assessments apply to dictionary entries, with the exceptions
  they raise. \<open>v * n\<close> for an \<open>int\<close> \<open>n\<close> is exact on an \<open>int\<close>, a float product on a
  \<open>float\<close> and a repetition on a string or a list. \<open>a / b\<close> of two \<open>int\<close>s is their
  exact quotient rounded to a double, with \<open>OverflowError\<close> when that is too large;
  otherwise both operands are converted to \<open>float\<close>, the first one first, and divided.
  \<open>a - b\<close> is exact on two \<open>int\<close>s and a float difference otherwise. \<open>v > 0\<close> is a
  comparison of numbers.
\<close>

fun py_mul_int :: "pyval \<Rightarrow> int \<Rightarrow> exn + pyval" where
  "py_mul_int (PInt i) n = Inr (PInt (i * n))"
| "py_mul_int (PBool b) n = Inr (PInt ((if b then 1 else 0) * n))"
| "py_mul_int (PStr s) n = Inr (PStr (concat (replicate (nat n) s)))"
| "py_mul_int (PList xs) n = Inr (PList (concat (replicate (nat n) xs)))"
| "py_mul_int PNone n = Inl TypeError"
| "py_mul_int (PDict d) n = Inl TypeError"
| "py_mul_int v n =
     (case to_float (PInt n) of Inl e \<Rightarrow> Inl e | Inr nf \<Rightarrow> Inr (float_mul v nf))"

definition py_gt_zero :: "pyval \<Rightarrow> exn + bool" where
  "py_gt_zero v = (if is_number v then Inr (num_gt v (PInt 0)) else Inl TypeError)"

definition py_truediv :: "pyval \<Rightarrow> pyval \<Rightarrow> exn + pyval" where
  "py_truediv a b =
     (if \<not> is_number a \<or> \<not> is_number b then Inl TypeError
      else if \<not> is_float a \<and> \<not> is_float b then
        (if num_of b = 0 then Inl ZeroDivisionError
         else (case fl (num_of a / num_of b) of
                 PNum r \<Rightarrow> Inr (PNum r)
               | _ \<Rightarrow> Inl OverflowError))
      else (case to_float a of
              Inl e \<Rightarrow> Inl e
            | Inr fa \<Rightarrow>
                (case to_float b of
                   Inl e \<Rightarrow> Inl e
                 | Inr fb \<Rightarrow>
                     if fb = PNum 0 then Inl ZeroDivisionError
                     else Inr (float_truediv fa fb))))"

definition py_sub :: "pyval \<Rightarrow> pyval \<Rightarrow> exn + pyval" where
  "py_sub a b =
     (if \<not> is_number a \<or> \<not> is_number b then Inl TypeError
      else if \<not> is_float a \<and> \<not> is_float b then Inr (PInt (int_of a - int_of b))
      else (case to_float a of
              Inl e \<Rightarrow> Inl e
            | Inr fa \<Rightarrow>
                (case to_float b of
                   Inl e \<Rightarrow> Inl e
                 | Inr fb \<Rightarrow> Inr (float_sub fa fb))))"

text \<open>
  \<open>round(x, 2)\<close> of the ratio, which is an \<open>int\<close> or a \<open>float\<close>. An \<open>int\<close>, an
  infinity and a NaN come back unchanged; a finite float is rounded to the nearest
  multiple of 1/100 of its exact value, a tie going to the even one, and the result is
  converted to the nearest double.
\<close>

fun py_round2 :: "pyval \<Rightarrow> pyval" where
  "py_round2 (PNum r) = fl (of_int (round_half_even (r * 100)) / 100)"
| "py_round2 v = v"

text \<open>
  \<open>IncomeAssessmentAgent.assess_income\<close>. The first argument is the outcome of
  \<open>self.invoke(prompt)\<close> in this run: the exception the language-model call raised, or
  the text it returned. The bank and credit data only enter the prompt.
\<close>

definition assess_income :: "exn + string \<Rightarrow> pydict \<Rightarrow> pydict \<Rightarrow> pydict \<Rightarrow> exn + pydict" where
  "assess_income reply application bank_data credit_data =
     (case reply of
        Inl e \<Rightarrow> Inl e
      | Inr assessment \<Rightarrow>
          (let income = py_get_default application ''income'' (PInt 0);
               amount = py_get_default application ''amount'' (PInt 0)
           in case py_mul_int income 12 of
                Inl e \<Rightarrow> Inl e
              | Inr annual_income \<Rightarrow>
                  (case py_gt_zero amount of
                     Inl e \<Rightarrow> Inl e
                   | Inr positive \<Rightarrow>
                       (case (if positive then py_truediv annual_income amount
                              else Inr (PInt 0)) of
                          Inl e \<Rightarrow> Inl e
                        | Inr income_ratio \<Rightarrow>
                            (let affordability_ok = num_ge income_ratio (PNum (5 / 2))
                             in Inr [(''income'', income),
                                     (''loan_amount'', amount),
                                     (''annual_income'', annual_income),
                                     (''income_to_loan_ratio'', py_round2 income_ratio),
                                     (''affordability_ok'', PBool affordability_ok),
                                     (''assessment'', PStr assessment)])))))"

text \<open>\<open>ExpenseAssessmentAgent.assess_expenses\<close>, with the language-model outcome as above.\<close>

definition assess_expenses :: "exn + string \<Rightarrow> pydict \<Rightarrow> pydict \<Rightarrow> exn + pydict" where
  "assess_expenses reply application bank_data =
     (case reply of
        Inl e \<Rightarrow> Inl e
      | Inr assessment \<Rightarrow>
          (let income = py_get_default application ''income'' (PInt 0);
               expenses = py_get_default application ''expenses'' (PInt 0)
           in case py_sub income expenses of
                Inl e \<Rightarrow> Inl e
              | Inr disposable \<Rightarrow>
                  Inr [(''monthly_income'', income),
                       (''monthly_expenses'', expenses),
                       (''disposable_income'', disposable),
                       (''affordability_ok'', PBool (num_gt disposable (PInt 0))),
                       (''assessment'', PStr assessment)]))"

section \<open>Aggregation\<close>

text \<open>
  \<open>SupervisorAgent.aggregate_and_decide\<close>. The first argument is the outcome of
  \<open>self.invoke(prompt)\<close> in this run; the application and the documents only enter the
  prompt.
\<close>

definition aggregate_and_decide ::
  "exn + string \<Rightarrow> pydict \<Rightarrow> pydict \<Rightarrow> pydict \<Rightarrow> pydict \<Rightarrow> pydict \<Rightarrow> exn + pydict" where
  "aggregate_and_decide reply application income_assessment expense_assessment
       credit_assessment documents =
     (case reply of
        Inl e \<Rightarrow> Inl e
      | Inr decision_text \<Rightarrow>
          (let credit_ok = (py_get credit_assessment ''risk_level'' \<in> set [PStr ''low'', PStr ''medium'']);
               income_ok = py_get_default income_assessment ''affordability_ok'' (PBool False);
               expense_ok = py_get_default expense_assessment ''affordability_ok'' (PBool False);
               outcome =
                 (if credit_ok \<and> truthy income_ok \<and> truthy expense_ok then (''approve'', ''high'')
                  else if \<not> credit_ok \<or> \<not> truthy income_ok then (''reject'', ''high'')
                  else (''review'', ''medium''))
           in Inr [(''decision'', PStr (fst outcome)),
                   (''confidence'', PStr (snd outcome)),
                   (''reasoning'', PStr decision_text),
                   (''credit_risk'', py_get credit_assessment ''risk_level''),
                   (''income_adequate'', income_ok),
                   (''expenses_manageable'', expense_ok)]))"

text \<open>
  The decision rule as the specification words it (orchestrator state \<open>AGGREGATING\<close>),
  in the specification's order: (a) reject, (b) approve, (c) review.
\<close>

definition spec_decision_rule :: "pyval \<Rightarrow> bool \<Rightarrow> bool \<Rightarrow> string \<times> string" where
  "spec_decision_rule risk_level income_affordable expense_affordable =
     (if risk_level \<notin> {PStr ''low'', PStr ''medium''} \<or> \<not> income_affordable
        then (''reject'', ''high'')
      else if risk_level \<in> {PStr ''low'', PStr ''medium''} \<and> income_affordable \<and> expense_affordable
        then (''approve'', ''high'')
      else (''review'', ''medium''))"

section \<open>Credit-fetch activities\<close>

text \<open>
  An \<open>ApplicationError\<close> as the activities raise it. Its message is a fixed prefix
  followed by \<open>str(e)\<close> of the exception \<open>e\<close> caught; the record keeps \<open>e\<close> itself.
\<close>

record application_error =
  cause :: exn
  error_type :: string
  non_retryable :: bool

text \<open>
  \<open>fetch_credit_report_cibil\<close> and \<open>fetch_credit_report_experian\<close>. The first argument is
  the outcome of the HTTP exchange (\<open>client.get\<close>, \<open>raise_for_status\<close>,
  \<open>response.json()\<close>): the exception raised, or the decoded body. Storing the provider
  tag into a body that is not a JSON object raises \<open>TypeError\<close>. Every exception of the
  body is caught and raised again as an \<open>ApplicationError\<close>.
\<close>

definition fetch_credit_report_cibil :: "exn + pyval \<Rightarrow> string \<Rightarrow> application_error + pydict" where
  "fetch_credit_report_cibil http applicant_id =
     (case (case http of
              Inl e \<Rightarrow> Inl e
            | Inr (PDict body) \<Rightarrow>
                (let credit_data = AList.update ''provider'' (PStr ''CIBIL'') body;
                     credit_data = AList.update ''data_quality'' (PStr ''validated'') credit_data;
                     score = py_get_default credit_data ''score'' (PInt 0)
                 in if \<not> is_number score \<or> num_lt score (PInt 300) \<or> num_gt score (PInt 850)
                    then Inl (ValueError ''CIBIL'' score)
                    else Inr credit_data)
            | Inr _ \<Rightarrow> Inl TypeError) of
        Inl e \<Rightarrow> Inl \<lparr>cause = e, error_type = ''CibilAPIError'', non_retryable = False\<rparr>
      | Inr credit_data \<Rightarrow> Inr credit_data)"

definition fetch_credit_report_experian :: "exn + pyval \<Rightarrow> string \<Rightarrow> application_error + pydict" where
  "fetch_credit_report_experian http applicant_id =
     (case (case http of
              Inl e \<Rightarrow> Inl e
            | Inr (PDict body) \<Rightarrow>
                (let credit_data = AList.update ''provider'' (PStr ''Experian'') body;
                     credit_data = AList.update ''data_quality'' (PStr ''validated'') credit_data;
                     score = py_get_default credit_data ''score'' (PInt 0)
                 in if \<not> is_number score \<or> num_lt score (PInt 300) \<or> num_gt score (PInt 850)
                    then Inl (ValueError ''Experian'' score)
                    else Inr credit_data)
            | Inr _ \<Rightarrow> Inl TypeError) of
        Inl e \<Rightarrow> Inl \<lparr>cause = e, error_type = ''ExperianAPIError'', non_retryable = False\<rparr>
      | Inr credit_data \<Rightarrow> Inr credit_data)"

section \<open>Review endpoint\<close>

text \<open>
  \<open>ReviewRequest(**review)\<close>: \<open>action\<close> is a required string, \<open>note\<close> a string that
  defaults to the empty one (field \<open>review_note\<close> of the record). A validation
  error lists the offending fields.
\<close>

record review_request =
  action :: string
  review_note :: string

definition ReviewRequest :: "pydict \<Rightarrow> exn + review_request" where
  "ReviewRequest review =
     (let bad_action = (case map_of review ''action'' of Some (PStr a) \<Rightarrow> [] | _ \<Rightarrow> [''action'']);
          bad_note = (case map_of review ''note'' of None \<Rightarrow> [] | Some (PStr n) \<Rightarrow> [] | _ \<Rightarrow> [''note''])
      in case (map_of review ''action'', py_get_default review ''note'' (PStr [])) of
           (Some (PStr a), PStr n) \<Rightarrow> Inr \<lparr>action = a, review_note = n\<rparr>
         | _ \<Rightarrow> Inl (ValidationError (bad_action @ bad_note)))"

text \<open>
  \<open>HTTPException(status_code, detail = str(e))\<close>, keeping the exception \<open>e\<close> itself.
\<close>

datatype http_exception = HTTPException nat exn

text \<open>
  The endpoint \<open>human_review\<close> of the web API. \<open>bedrock\<close> is \<open>None\<close> when the validation
  agent is disabled, and otherwise the outcome of its \<open>structured_output\<close> call;
  \<open>temporal\<close> is the outcome of connecting to Temporal and sending the
  \<open>human_review\<close> signal to the workflow handle. The endpoint keeps no state of its own.
\<close>

definition human_review ::
  "(exn + review_request) option \<Rightarrow> exn + unit \<Rightarrow> string \<Rightarrow> pydict \<Rightarrow> http_exception + pydict" where
  "human_review bedrock temporal workflow_id review =
     (case (case bedrock of
              Some (Inr validated_review) \<Rightarrow> Inr validated_review
            | Some (Inl bedrock_error) \<Rightarrow> ReviewRequest review
            | None \<Rightarrow> ReviewRequest review) of
        Inl e \<Rightarrow> Inl (HTTPException 500 e)
      | Inr validated_review \<Rightarrow>
          (case temporal of
             Inl e \<Rightarrow> Inl (HTTPException 500 e)
           | Inr sent \<Rightarrow>
               Inr [(''workflow_id'', PStr workflow_id),
                    (''signaled'', PBool True),
                    (''action'', PStr (action validated_review))]))"

section \<open>Properties\<close>

subsection \<open>Risk classification\<close>

text \<open>
  Claim C2. For every credit score \<open>s\<close> the risk classification follows the thresholds
  620/650/750: \<open>s \<ge> 750\<close> is "low", \<open>650 \<le> s < 750\<close> is "medium", \<open>620 \<le> s < 650\<close> is
  "medium-high" and \<open>s < 620\<close> is "high".
\<close>

theorem determine_risk_level_thresholds:
  "(750 \<le> s \<longrightarrow> determine_risk_level s = ''low'') \<and>
   (650 \<le> s \<and> s < 750 \<longrightarrow> determine_risk_level s = ''medium'') \<and>
   (620 \<le> s \<and> s < 650 \<longrightarrow> determine_risk_level s = ''medium-high'') \<and>
   (s < 620 \<longrightarrow> determine_risk_level s = ''high'')"
  by (simp add: determine_risk_level_def)

theorem determine_risk_level_boundaries:
  "determine_risk_level 750 = ''low'' \<and> determine_risk_level 749 = ''medium'' \<and>
   determine_risk_level 650 = ''medium'' \<and> determine_risk_level 649 = ''medium-high'' \<and>
   determine_risk_level 620 = ''medium-high'' \<and> determine_risk_level 619 = ''high''"
  using determine_risk_level_thresholds [of 750] determine_risk_level_thresholds [of 749]
    determine_risk_level_thresholds [of 650] determine_risk_level_thresholds [of 649]
    determine_risk_level_thresholds [of 620] determine_risk_level_thresholds [of 619]
  by simp

subsection \<open>Aggregation rule\<close>

text \<open>
  Claim C1. For every assessment triple (credit risk level, income affordability,
  expense affordability) the aggregation step computes decision and confidence by the
  specification's ordered rule: reject/high when the risk level is not low or medium or
  income affordability is false, approve/high when all three are favourable, review/medium
  otherwise; the outcome is always one of these three. A value of the \<open>affordability_ok\<close>
  entries counts by its Python truth value. The run is one in which the language-model
  call returned.
\<close>

theorem aggregate_and_decide_rule:
  "(let outcome = spec_decision_rule (py_get credit_assessment ''risk_level'')
        (truthy (py_get_default income_assessment ''affordability_ok'' (PBool False)))
        (truthy (py_get_default expense_assessment ''affordability_ok'' (PBool False)))
    in aggregate_and_decide (Inr text) application income_assessment expense_assessment
         credit_assessment documents =
       Inr [(''decision'', PStr (fst outcome)),
            (''confidence'', PStr (snd outcome)),
            (''reasoning'', PStr text),
            (''credit_risk'', py_get credit_assessment ''risk_level''),
            (''income_adequate'', py_get_default income_assessment ''affordability_ok'' (PBool False)),
            (''expenses_manageable'', py_get_default expense_assessment ''affordability_ok'' (PBool False))] \<and>
       outcome \<in> {(''reject'', ''high''), (''approve'', ''high''), (''review'', ''medium'')})"
  by (simp add: aggregate_and_decide_def spec_decision_rule_def Let_def)

theorem aggregate_and_decide_rule_witness:
  "aggregate_and_decide (Inr ''ok'') [] [(''affordability_ok'', PBool True)]
       [(''affordability_ok'', PBool False)] [(''risk_level'', PStr ''medium'')] [] =
     Inr [(''decision'', PStr ''review''),
          (''confidence'', PStr ''medium''),
          (''reasoning'', PStr ''ok''),
          (''credit_risk'', PStr ''medium''),
          (''income_adequate'', PBool True),
          (''expenses_manageable'', PBool False)] \<and>
   aggregate_and_decide (Inr ''ok'') [] [(''affordability_ok'', PBool False)]
       [(''affordability_ok'', PBool True)] [(''risk_level'', PStr ''low'')] [] =
     Inr [(''decision'', PStr ''reject''),
          (''confidence'', PStr ''high''),
          (''reasoning'', PStr ''ok''),
          (''credit_risk'', PStr ''low''),
          (''income_adequate'', PBool False),
          (''expenses_manageable'', PBool True)] \<and>
   aggregate_and_decide (Inr ''ok'') [] [(''affordability_ok'', PBool True)]
       [(''affordability_ok'', PBool True)] [(''risk_level'', PStr ''medium-high'')] [] =
     Inr [(''decision'', PStr ''reject''),
          (''confidence'', PStr ''high''),
          (''reasoning'', PStr ''ok''),
          (''credit_risk'', PStr ''medium-high''),
          (''income_adequate'', PBool True),
          (''expenses_manageable'', PBool True)] \<and>
   aggregate_and_decide (Inr ''ok'') [] [(''affordability_ok'', PBool True)]
       [(''affordability_ok'', PBool True)] [(''risk_level'', PStr ''low'')] [] =
     Inr [(''decision'', PStr ''approve''),
          (''confidence'', PStr ''high''),
          (''reasoning'', PStr ''ok''),
          (''credit_risk'', PStr ''low''),
          (''income_adequate'', PBool True),
          (''expenses_manageable'', PBool True)]"
  using
    aggregate_and_decide_rule [of "[(''risk_level'', PStr ''medium'')]"
      "[(''affordability_ok'', PBool True)]" "[(''affordability_ok'', PBool False)]" "''ok''" "[]" "[]"]
    aggregate_and_decide_rule [of "[(''risk_level'', PStr ''low'')]"
      "[(''affordability_ok'', PBool False)]" "[(''affordability_ok'', PBool True)]" "''ok''" "[]" "[]"]
    aggregate_and_decide_rule [of "[(''risk_level'', PStr ''medium-high'')]"
      "[(''affordability_ok'', PBool True)]" "[(''affordability_ok'', PBool True)]" "''ok''" "[]" "[]"]
    aggregate_and_decide_rule [of "[(''risk_level'', PStr ''low'')]"
      "[(''affordability_ok'', PBool True)]" "[(''affordability_ok'', PBool True)]" "''ok''" "[]" "[]"]
  by (simp add: spec_decision_rule_def py_get_def py_get_default_def Let_def)

subsection \<open>Rounding to a double\<close>

lemma pow2_powi: "pow2 k = 2 powi k"
  by (simp add: pow2_def power_int_def power_inverse inverse_eq_divide power_one_over)

lemma pow2_pos: "0 < pow2 k"
  by (simp add: pow2_powi zero_less_power_int)

lemma pow2_mono: "i \<le> j \<Longrightarrow> pow2 i \<le> pow2 j"
  by (simp add: pow2_powi power_int_increasing)

lemma pow2_bitlen_quotient:
  assumes "0 < n" and "0 < d"
  shows "pow2 (bitlen n - bitlen d - 1) \<le> rat_of_int n / rat_of_int d"
proof -
  have bn: "2 ^ nat (bitlen n - 1) \<le> n" using bitlen_bounds [OF assms(1)] by simp
  have bd: "d < 2 ^ nat (bitlen d)" using bitlen_bounds [OF assms(2)] by simp
  have n1: "1 \<le> bitlen n"
  proof (rule ccontr)
    assume "\<not> 1 \<le> bitlen n"
    then have "nat (bitlen n) = 0" by simp
    with bitlen_bounds [OF assms(1)] have "n < 1" by simp
    with assms(1) show False by simp
  qed
  have d0: "0 \<le> bitlen d" by (rule bitlen_nonneg)
  have "rat_of_int (2 ^ nat (bitlen n - 1)) \<le> rat_of_int n" using bn by (simp only: of_int_le_iff)
  then have ln: "2 powi (bitlen n - 1) \<le> rat_of_int n"
    using n1 by (simp add: power_int_def)
  from bd have "d \<le> 2 ^ nat (bitlen d)" by simp
  then have "rat_of_int d \<le> rat_of_int (2 ^ nat (bitlen d))" by (simp only: of_int_le_iff)
  then have ld: "rat_of_int d \<le> 2 powi (bitlen d)"
    using d0 by (simp add: power_int_def)
  have dpos: "0 < rat_of_int d" using assms(2) by simp
  have "(2::rat) powi (bitlen n - bitlen d - 1) = 2 powi (bitlen n - 1) / 2 powi (bitlen d)"
    using power_int_diff [of "2::rat" "bitlen n - 1" "bitlen d"] by (simp add: algebra_simps)
  also have "\<dots> \<le> rat_of_int n / 2 powi (bitlen d)"
    using ln by (simp add: divide_right_mono zero_less_power_int less_imp_le)
  also have "\<dots> \<le> rat_of_int n / rat_of_int d"
    using ld dpos assms(1) by (simp add: divide_left_mono zero_less_power_int mult_pos_pos)
  finally show ?thesis by (simp add: pow2_powi)
qed

lemma ilog2_le: assumes "0 < x" shows "pow2 (ilog2 x) \<le> x"
proof -
  obtain n d where q: "quotient_of x = (n, d)" by (cases "quotient_of x")
  have d: "0 < d" using quotient_of_denom_pos [OF q] .
  have x: "x = rat_of_int n / rat_of_int d" using quotient_of_div [OF q] .
  have n: "0 < n" using assms d x by (simp add: zero_less_divide_iff)
  show ?thesis
    using pow2_bitlen_quotient [OF n d] x q by (simp add: ilog2_def Let_def)
qed

lemma round_half_even_ge_one: "1 \<le> y \<Longrightarrow> 1 \<le> round_half_even y"
proof -
  assume "1 \<le> y"
  then have "1 \<le> \<lfloor>y\<rfloor>" by (simp add: le_floor_iff)
  then show ?thesis by (simp add: round_half_even_def Let_def)
qed

lemma fl_ge_one_nonzero: assumes "1 \<le> x" shows "fl x \<noteq> PNum 0"
proof -
  define e where "e = max (ilog2 x) (- 1022)"
  define q where "q = pow2 (e - 52)"
  have xpos: "0 < x" using assms by simp
  have qpos: "0 < q" by (simp add: q_def pow2_pos)
  have "q \<le> x"
  proof (cases "ilog2 x \<le> - 1022")
    case True
    then have "e = - 1022" by (simp add: e_def)
    then have "q \<le> pow2 0" by (simp add: q_def pow2_mono)
    then show ?thesis using assms by (simp add: pow2_def)
  next
    case False
    then have "e = ilog2 x" by (simp add: e_def)
    then have "q \<le> pow2 (ilog2 x)" by (simp add: q_def pow2_mono)
    then show ?thesis using ilog2_le [OF xpos] by simp
  qed
  then have "1 \<le> x / q" using qpos by (simp add: le_divide_eq)
  then have "1 \<le> round_half_even (x / q)" by (rule round_half_even_ge_one)
  then have "0 < rat_of_int (round_half_even (x / q)) * q" using qpos by simp
  then show ?thesis
    using xpos by (auto simp: fl_def Let_def e_def q_def)
qed

lemma fl_12: "fl 12 = PNum 12"
  by code_simp

lemma fl_120000: "fl 120000 = PNum 120000"
  by code_simp

lemma fl_47000: "fl 47000 = PNum 47000"
  by code_simp

lemma fl_six_fifths: "fl (6 / 5) = PNum (5404319552844595 / 4503599627370496)"
  by code_simp

lemma is_float_fl: "is_float (fl x)"
  by (simp add: fl_def Let_def)

lemma to_float_12: "to_float (PInt 12) = Inr (PNum 12)"
  by (simp add: to_float_def fl_12)

lemma py_round2_six_fifths:
  "py_round2 (PNum (5404319552844595 / 4503599627370496)) =
     PNum (5404319552844595 / 4503599627370496)"
  by code_simp

lemma fl_rounded_product:
  "fl (3023876878709555 / 2199023255552 * 12) = PNum (1133953829516083 / 68719476736)"
  by code_simp

lemma fl_rounded_quotient:
  "fl ((1133953829516083 / 68719476736) / (1814326127225733 / 274877906944)) =
     PNum (5629499534213119 / 2251799813685248)"
  by code_simp

lemma py_round2_rounded_quotient:
  "py_round2 (PNum (5629499534213119 / 2251799813685248)) = PNum (5 / 2)"
  by code_simp

subsection \<open>Python arithmetic\<close>

lemma is_float_number: "is_float v \<Longrightarrow> is_number v"
  by (cases v) simp_all

lemma to_float_float: "is_float v \<Longrightarrow> to_float v = Inr v"
  by (simp add: to_float_def)

lemma to_float_is_float: "to_float v = Inr f \<Longrightarrow> is_float f"
  by (auto simp: to_float_def is_float_fl split: if_splits pyval.splits)

lemma to_float_error: "to_float v = Inl e \<Longrightarrow> e = OverflowError \<and> \<not> is_float v"
  by (auto simp: to_float_def split: if_splits pyval.splits)

lemma to_float_positive_int:
  assumes "\<not> is_float v" and "num_gt v (PInt 0)"
  shows "to_float v \<noteq> Inr (PNum 0)"
proof -
  from assms have "0 < num_of v" by (cases v) (auto simp: num_gt_def num_lt_def)
  moreover from assms have "num_of v = rat_of_int (int_of v)"
    by (cases v) (auto simp: num_gt_def num_lt_def)
  ultimately have "0 < int_of v" by simp
  then have "1 \<le> rat_of_int (int_of v)" by linarith
  then have "1 \<le> num_of v" using \<open>num_of v = rat_of_int (int_of v)\<close> by simp
  then have "fl (num_of v) \<noteq> PNum 0" by (rule fl_ge_one_nonzero)
  then show ?thesis using assms(1) by (auto simp: to_float_def split: pyval.splits)
qed

lemma is_float_float_mul: "is_float (float_mul a b)"
  by (simp add: float_mul_def is_float_fl)

lemma is_float_float_truediv: "is_float (float_truediv a b)"
  by (simp add: float_truediv_def is_float_fl)

lemma is_float_float_sub: "is_float a \<Longrightarrow> is_float (float_sub a b)"
  by (auto simp: float_sub_def is_float_fl)

lemma py_mul_int_12_number:
  assumes "is_number v"
  shows "\<exists>a. py_mul_int v 12 = Inr a \<and> is_number a \<and> is_float a = is_float v"
  using assms by (cases v) (simp_all add: to_float_12 is_float_float_mul is_float_number)

lemma py_mul_int_12_error: "py_mul_int v 12 = Inl e \<Longrightarrow> e = TypeError"
  by (cases v) (simp_all add: to_float_12)

lemma py_truediv_positive_divisor:
  assumes "num_gt b (PInt 0)"
  shows "py_truediv a b \<noteq> Inl ZeroDivisionError"
proof (cases "is_float b")
  case True
  with assms have "b \<noteq> PNum 0" by (auto simp: num_gt_def num_lt_def)
  with True show ?thesis
    by (auto simp: py_truediv_def to_float_float split: sum.splits pyval.splits dest: to_float_error)
next
  case False
  with assms have nz: "num_of b \<noteq> 0" by (cases b) (auto simp: num_gt_def num_lt_def)
  from False assms have "to_float b \<noteq> Inr (PNum 0)" by (rule to_float_positive_int)
  with nz False show ?thesis
    by (auto simp: py_truediv_def split: sum.splits pyval.splits dest: to_float_error)
qed

lemma py_truediv_error:
  assumes "is_number a" and "is_number b" and "num_gt b (PInt 0)" and "py_truediv a b = Inl e"
  shows "e = OverflowError \<and> \<not> (is_float a \<and> is_float b)"
proof -
  from py_truediv_positive_divisor [OF assms(3)] assms(4) have "e \<noteq> ZeroDivisionError" by auto
  moreover from assms(1,2,4) have "e = ZeroDivisionError \<or> e = OverflowError"
    by (auto simp: py_truediv_def split: if_splits sum.splits pyval.splits dest: to_float_error)
  moreover from assms(4) have "\<not> (is_float a \<and> is_float b)"
    using py_truediv_positive_divisor [OF assms(3), of a]
    by (auto simp: py_truediv_def to_float_float is_float_number split: if_splits)
  ultimately show ?thesis by auto
qed

lemma py_truediv_floats:
  "is_float a \<Longrightarrow> is_float b \<Longrightarrow> num_gt b (PInt 0) \<Longrightarrow> py_truediv a b = Inr (float_truediv a b)"
  by (cases b) (auto simp: py_truediv_def to_float_float num_gt_def num_lt_def is_float_number)

lemma py_sub_error:
  assumes "is_number a" and "is_number b" and "py_sub a b = Inl e"
  shows "e = OverflowError \<and> is_float a \<noteq> is_float b"
  using assms
  by (auto simp: py_sub_def to_float_float split: if_splits sum.splits dest: to_float_error)

subsection \<open>Income and expense assessment\<close>

text \<open>
  Claim C6, as stated, fails: an application with a requested amount above 0 whose
  \<open>income\<close> entry is \<open>None\<close>, the default of the API's \<open>LoanApplication\<close>, gets no
  ratio at all; the assessment raises \<open>TypeError\<close>.
\<close>

theorem assess_income_none_income:
  "assess_income (Inr ''ok'') [(''income'', PNone), (''amount'', PNum 100000)] [] [] = Inl TypeError"
  by (simp add: assess_income_def py_get_default_def)

text \<open>
  Claim C6, amended. For every application whose income is a number (an \<open>int\<close> or a
  \<open>float\<close>, 0 when absent) and whose requested amount is a number above 0, the income
  assessment computes the ratio as \<open>(income * 12) / amount\<close> in Python's arithmetic.
  When that raises, it raises \<open>OverflowError\<close> (an \<open>int\<close> operand or quotient too
  large for a \<open>float\<close>), which cannot happen when both are \<open>float\<close>s. Otherwise the
  assessment returns the ratio rounded to two decimals and sets \<open>affordability_ok\<close>
  exactly when the computed, unrounded ratio is at least 2.5. The witness is the
  specification's scenario: income 10000.0 and amount 100000.0 give the double that
  Python prints as 1.2 (its exact value is 5404319552844595 / 4503599627370496) and
  \<open>affordability_ok = false\<close>.
\<close>

theorem assess_income_ratio:
  assumes "py_get_default application ''income'' (PInt 0) = income" and "is_number income"
    and "map_of application ''amount'' = Some amount" and "is_number amount"
    and "num_gt amount (PInt 0)"
  shows "\<exists>annual. py_mul_int income 12 = Inr annual \<and>
           (case py_truediv annual amount of
              Inl e \<Rightarrow>
                e = OverflowError \<and> \<not> (is_float income \<and> is_float amount) \<and>
                assess_income (Inr text) application bank_data credit_data = Inl OverflowError
            | Inr ratio \<Rightarrow>
                assess_income (Inr text) application bank_data credit_data =
                  Inr [(''income'', income),
                       (''loan_amount'', amount),
                       (''annual_income'', annual),
                       (''income_to_loan_ratio'', py_round2 ratio),
                       (''affordability_ok'', PBool (num_ge ratio (PNum (5 / 2)))),
                       (''assessment'', PStr text)])"
proof -
  from py_mul_int_12_number [OF assms(2)] obtain annual
    where a: "py_mul_int income 12 = Inr annual" "is_number annual"
      "is_float annual = is_float income" by blast
  have amt: "py_get_default application ''amount'' (PInt 0) = amount"
    using assms(3) by (simp add: py_get_default_def)
  have gt: "py_gt_zero amount = Inr True"
    using assms(4,5) by (simp add: py_gt_zero_def)
  show ?thesis
  proof (cases "py_truediv annual amount")
    case (Inl e)
    from py_truediv_error [OF a(2) assms(4,5) Inl] a(3)
    have "e = OverflowError" "\<not> (is_float income \<and> is_float amount)" by simp_all
    with a(1) Inl assms(1) amt gt show ?thesis
      by (auto simp: assess_income_def Let_def)
  next
    case (Inr ratio)
    with a(1) assms(1) amt gt show ?thesis
      by (auto simp: assess_income_def Let_def)
  qed
qed

theorem assess_income_ratio_witness:
  "assess_income (Inr ''ok'') [(''income'', PNum 10000), (''amount'', PNum 100000)] [] [] =
     Inr [(''income'', PNum 10000),
          (''loan_amount'', PNum 100000),
          (''annual_income'', PNum 120000),
          (''income_to_loan_ratio'', PNum (5404319552844595 / 4503599627370496)),
          (''affordability_ok'', PBool False),
          (''assessment'', PStr ''ok'')]"
proof -
  let ?app = "[(''income'', PNum 10000), (''amount'', PNum 100000)]"
  have h1: "py_get_default ?app ''income'' (PInt 0) = PNum 10000"
    by (simp add: py_get_default_def)
  have h2: "is_number (PNum 10000)" by simp
  have h3: "map_of ?app ''amount'' = Some (PNum 100000)" by simp
  have h4: "is_number (PNum 100000)" by simp
  have h5: "num_gt (PNum 100000) (PInt 0)" by (simp add: num_gt_def num_lt_def)
  have m: "py_mul_int (PNum 10000) 12 = Inr (PNum 120000)"
    by (simp add: to_float_12 float_mul_def is_inf_def fl_120000)
  have d: "py_truediv (PNum 120000) (PNum 100000) =
             Inr (PNum (5404319552844595 / 4503599627370496))"
    by (simp add: py_truediv_def to_float_def float_truediv_def is_inf_def fl_six_fifths)
  from assess_income_ratio [OF h1 h2 h3 h4 h5, of "''ok''" "[]" "[]"] m d
  show ?thesis
    by (auto simp: py_round2_six_fifths num_ge_def num_le_def simp del: py_round2.simps)
qed

text \<open>
  The rounding of the two float operations shows at income 1375.1 and amount 6600.48
  (the doubles nearest to them): the product is rounded to 16501.199999999997 and the
  quotient to 2.4999999999999996, so \<open>affordability_ok\<close> is false, although the exact
  ratio of the two doubles is 5/2; the reported ratio is 2.5.
\<close>

lemma assess_income_float_rounding:
  "assess_income (Inr ''ok'')
     [(''income'', PNum (3023876878709555 / 2199023255552)),
      (''amount'', PNum (1814326127225733 / 274877906944))] [] [] =
   Inr [(''income'', PNum (3023876878709555 / 2199023255552)),
        (''loan_amount'', PNum (1814326127225733 / 274877906944)),
        (''annual_income'', PNum (1133953829516083 / 68719476736)),
        (''income_to_loan_ratio'', PNum (5 / 2)),
        (''affordability_ok'', PBool False),
        (''assessment'', PStr ''ok'')]"
proof -
  have m: "py_mul_int (PNum (3023876878709555 / 2199023255552)) 12 =
             Inr (PNum (1133953829516083 / 68719476736))"
    using fl_rounded_product by (simp add: to_float_12 float_mul_def is_inf_def)
  have d: "py_truediv (PNum (1133953829516083 / 68719476736))
             (PNum (1814326127225733 / 274877906944)) =
           Inr (PNum (5629499534213119 / 2251799813685248))"
    using fl_rounded_quotient by (simp add: py_truediv_def to_float_def float_truediv_def is_inf_def)
  show ?thesis
    by (simp add: assess_income_def py_get_default_def py_gt_zero_def num_gt_def num_lt_def
        num_ge_def num_le_def Let_def m d py_round2_rounded_quotient
        del: py_mul_int.simps py_round2.simps)
qed

text \<open>
  Claim C7, as stated, fails: an application whose \<open>income\<close> or \<open>expenses\<close> entry is
  \<open>None\<close>, the default of the API's \<open>LoanApplication\<close>, gets no disposable income;
  the assessment raises \<open>TypeError\<close>.
\<close>

theorem assess_expenses_none_expenses:
  "assess_expenses (Inr ''ok'') [(''income'', PNum 50000), (''expenses'', PNone)] [] = Inl TypeError \<and>
   assess_expenses (Inr ''ok'') [(''income'', PNone), (''expenses'', PNum 3000)] [] = Inl TypeError"
  by (simp add: assess_expenses_def py_get_default_def py_sub_def)

text \<open>
  Claim C7, amended. For every application whose income and expenses are numbers (an
  \<open>int\<close> or a \<open>float\<close>, 0 when absent), the expense assessment computes disposable
  income as \<open>income - expenses\<close> in Python's arithmetic: exactly when both are
  \<open>int\<close>s, as the float difference when both are \<open>float\<close>s. When that raises, it
  raises \<open>OverflowError\<close>, and one of the two is an \<open>int\<close> and the other a
  \<open>float\<close>. Otherwise the assessment returns the disposable income and sets
  \<open>affordability_ok\<close> exactly when it is strictly above 0. The witness is the
  specification's scenario: income 50000.0 and expenses 3000.0 give disposable income
  47000.0 and \<open>affordability_ok = true\<close>.
\<close>

theorem assess_expenses_disposable:
  assumes "py_get_default application ''income'' (PInt 0) = income" and "is_number income"
    and "py_get_default application ''expenses'' (PInt 0) = expenses" and "is_number expenses"
  shows "(case py_sub income expenses of
            Inl e \<Rightarrow>
              e = OverflowError \<and> is_float income \<noteq> is_float expenses \<and>
              assess_expenses (Inr text) application bank_data = Inl OverflowError
          | Inr disposable \<Rightarrow>
              assess_expenses (Inr text) application bank_data =
                Inr [(''monthly_income'', income),
                     (''monthly_expenses'', expenses),
                     (''disposable_income'', disposable),
                     (''affordability_ok'', PBool (num_gt disposable (PInt 0))),
                     (''assessment'', PStr text)]) \<and>
         (\<not> is_float income \<and> \<not> is_float expenses \<longrightarrow>
            py_sub income expenses = Inr (PInt (int_of income - int_of expenses))) \<and>
         (is_float income \<and> is_float expenses \<longrightarrow>
            py_sub income expenses = Inr (float_sub income expenses))"
proof (intro conjI impI)
  show "case py_sub income expenses of
            Inl e \<Rightarrow>
              e = OverflowError \<and> is_float income \<noteq> is_float expenses \<and>
              assess_expenses (Inr text) application bank_data = Inl OverflowError
          | Inr disposable \<Rightarrow>
              assess_expenses (Inr text) application bank_data =
                Inr [(''monthly_income'', income),
                     (''monthly_expenses'', expenses),
                     (''disposable_income'', disposable),
                     (''affordability_ok'', PBool (num_gt disposable (PInt 0))),
                     (''assessment'', PStr text)]"
  proof (cases "py_sub income expenses")
    case (Inl e)
    from py_sub_error [OF assms(2,4) Inl] Inl assms(1,3) show ?thesis
      by (simp add: assess_expenses_def)
  next
    case (Inr disposable)
    with assms(1,3) show ?thesis by (simp add: assess_expenses_def)
  qed
next
  assume "\<not> is_float income \<and> \<not> is_float expenses"
  with assms(2,4) show "py_sub income expenses = Inr (PInt (int_of income - int_of expenses))"
    by (simp add: py_sub_def)
next
  assume "is_float income \<and> is_float expenses"
  then show "py_sub income expenses = Inr (float_sub income expenses)"
    by (simp add: py_sub_def to_float_float is_float_number)
qed

theorem assess_expenses_disposable_witness:
  "assess_expenses (Inr ''ok'') [(''income'', PNum 50000), (''expenses'', PNum 3000)] [] =
     Inr [(''monthly_income'', PNum 50000),
          (''monthly_expenses'', PNum 3000),
          (''disposable_income'', PNum 47000),
          (''affordability_ok'', PBool True),
          (''assessment'', PStr ''ok'')] \<and>
   assess_expenses (Inr ''ok'') [(''income'', PInt 3000), (''expenses'', PInt 3000)] [] =
     Inr [(''monthly_income'', PInt 3000),
          (''monthly_expenses'', PInt 3000),
          (''disposable_income'', PInt 0),
          (''affordability_ok'', PBool False),
          (''assessment'', PStr ''ok'')]"
proof -
  let ?app = "[(''income'', PNum 50000), (''expenses'', PNum 3000)]"
  let ?app2 = "[(''income'', PInt 3000), (''expenses'', PInt 3000)]"
  have h1: "py_get_default ?app ''income'' (PInt 0) = PNum 50000"
    and h3: "py_get_default ?app ''expenses'' (PInt 0) = PNum 3000"
    and k1: "py_get_default ?app2 ''income'' (PInt 0) = PInt 3000"
    and k3: "py_get_default ?app2 ''expenses'' (PInt 0) = PInt 3000"
    by (simp_all add: py_get_default_def)
  have h2: "is_number (PNum 50000)" and h4: "is_number (PNum 3000)"
    and k2: "is_number (PInt 3000)" by simp_all
  have s: "float_sub (PNum 50000) (PNum 3000) = PNum 47000"
    by (simp add: float_sub_def is_inf_def fl_47000)
  have p: "py_sub (PNum 50000) (PNum 3000) = Inr (PNum 47000)"
    by (simp add: py_sub_def to_float_def s)
  have q: "py_sub (PInt 3000) (PInt 3000) = Inr (PInt 0)"
    by (simp add: py_sub_def)
  from assess_expenses_disposable [OF h1 h2 h3 h4, of "''ok''" "[]"] p
  have r1: "assess_expenses (Inr ''ok'') ?app [] =
     Inr [(''monthly_income'', PNum 50000),
          (''monthly_expenses'', PNum 3000),
          (''disposable_income'', PNum 47000),
          (''affordability_ok'', PBool True),
          (''assessment'', PStr ''ok'')]"
    by (simp add: num_gt_def num_lt_def)
  from assess_expenses_disposable [OF k1 k2 k3 k2, of "''ok''" "[]"] q
  have r2: "assess_expenses (Inr ''ok'') ?app2 [] =
     Inr [(''monthly_income'', PInt 3000),
          (''monthly_expenses'', PInt 3000),
          (''disposable_income'', PInt 0),
          (''affordability_ok'', PBool False),
          (''assessment'', PStr ''ok'')]"
    by (simp add: num_gt_def num_lt_def)
  from r1 r2 show ?thesis by simp
qed

text \<open>
  Claim C9, as stated, fails: with a requested amount of 0 and an \<open>income\<close> entry that
  is \<open>None\<close> the assessment raises \<open>TypeError\<close> instead of returning a ratio of 0.
\<close>

theorem assess_income_none_income_zero_amount:
  "assess_income (Inr ''ok'') [(''income'', PNone), (''amount'', PInt 0)] [] [] = Inl TypeError"
  by (simp add: assess_income_def py_get_default_def)

text \<open>
  Claim C9, amended. The income assessment never divides by zero: no run ends in
  \<open>ZeroDivisionError\<close>, whatever the application. For every application whose income
  is a number (0 when absent) and whose requested amount is absent or a number that is
  not above 0 (zero or negative), it raises nothing and returns
  \<open>income_to_loan_ratio = 0\<close> and \<open>affordability_ok = false\<close>.
\<close>

theorem assess_income_guarded_division:
  "assess_income (Inr text) application bank_data credit_data \<noteq> Inl ZeroDivisionError \<and>
   (py_get_default application ''income'' (PInt 0) = income \<and> is_number income \<and>
    py_get_default application ''amount'' (PInt 0) = amount \<and> is_number amount \<and>
    \<not> num_gt amount (PInt 0) \<longrightarrow>
      (\<exists>annual. py_mul_int income 12 = Inr annual \<and>
         assess_income (Inr text) application bank_data credit_data =
           Inr [(''income'', income),
                (''loan_amount'', amount),
                (''annual_income'', annual),
                (''income_to_loan_ratio'', PInt 0),
                (''affordability_ok'', PBool False),
                (''assessment'', PStr text)]))"
proof (intro conjI impI)
  show "assess_income (Inr text) application bank_data credit_data \<noteq> Inl ZeroDivisionError"
  proof
    assume z: "assess_income (Inr text) application bank_data credit_data = Inl ZeroDivisionError"
    let ?income = "py_get_default application ''income'' (PInt 0)"
    let ?amount = "py_get_default application ''amount'' (PInt 0)"
    from z obtain annual where a: "py_mul_int ?income 12 = Inr annual"
      by (auto simp: assess_income_def Let_def split: sum.splits dest: py_mul_int_12_error)
    from z a obtain positive where p: "py_gt_zero ?amount = Inr positive"
      by (auto simp: assess_income_def Let_def py_gt_zero_def split: sum.splits if_splits)
    from z a p have "positive" and d: "py_truediv annual ?amount = Inl ZeroDivisionError"
      by (auto simp: assess_income_def Let_def split: sum.splits if_splits)
    from p \<open>positive\<close> have "num_gt ?amount (PInt 0)"
      by (auto simp: py_gt_zero_def split: if_splits)
    from py_truediv_positive_divisor [OF this] d show False by simp
  qed
next
  assume h: "py_get_default application ''income'' (PInt 0) = income \<and> is_number income \<and>
    py_get_default application ''amount'' (PInt 0) = amount \<and> is_number amount \<and>
    \<not> num_gt amount (PInt 0)"
  then obtain annual where a: "py_mul_int income 12 = Inr annual"
    using py_mul_int_12_number by blast
  with h show "\<exists>annual. py_mul_int income 12 = Inr annual \<and>
         assess_income (Inr text) application bank_data credit_data =
           Inr [(''income'', income),
                (''loan_amount'', amount),
                (''annual_income'', annual),
                (''income_to_loan_ratio'', PInt 0),
                (''affordability_ok'', PBool False),
                (''assessment'', PStr text)]"
    by (simp add: assess_income_def Let_def py_gt_zero_def num_ge_def num_le_def)
qed

theorem assess_income_guarded_division_witness:
  "assess_income (Inr ''ok'') [(''income'', PNum 10000), (''amount'', PNum 0)] [] [] =
     Inr [(''income'', PNum 10000),
          (''loan_amount'', PNum 0),
          (''annual_income'', PNum 120000),
          (''income_to_loan_ratio'', PInt 0),
          (''affordability_ok'', PBool False),
          (''assessment'', PStr ''ok'')] \<and>
   assess_income (Inr ''ok'') [(''income'', PNum 10000), (''amount'', PInt (- 5))] [] [] =
     Inr [(''income'', PNum 10000),
          (''loan_amount'', PInt (- 5)),
          (''annual_income'', PNum 120000),
          (''income_to_loan_ratio'', PInt 0),
          (''affordability_ok'', PBool False),
          (''assessment'', PStr ''ok'')] \<and>
   assess_income (Inr ''ok'') [(''income'', PInt 10000)] [] [] =
     Inr [(''income'', PInt 10000),
          (''loan_amount'', PInt 0),
          (''annual_income'', PInt 120000),
          (''income_to_loan_ratio'', PInt 0),
          (''affordability_ok'', PBool False),
          (''assessment'', PStr ''ok'')]"
proof -
  have m: "py_mul_int (PNum 10000) 12 = Inr (PNum 120000)"
    by (simp add: to_float_12 float_mul_def is_inf_def fl_120000)
  have n: "py_mul_int (PInt 10000) 12 = Inr (PInt 120000)" by simp
  from assess_income_guarded_division
      [of "''ok''" "[(''income'', PNum 10000), (''amount'', PNum 0)]" "[]" "[]" "PNum 10000" "PNum 0"]
  have r1: "assess_income (Inr ''ok'') [(''income'', PNum 10000), (''amount'', PNum 0)] [] [] =
     Inr [(''income'', PNum 10000),
          (''loan_amount'', PNum 0),
          (''annual_income'', PNum 120000),
          (''income_to_loan_ratio'', PInt 0),
          (''affordability_ok'', PBool False),
          (''assessment'', PStr ''ok'')]"
    by (simp add: m py_get_default_def num_gt_def num_lt_def del: py_mul_int.simps)
  from assess_income_guarded_division
      [of "''ok''" "[(''income'', PNum 10000), (''amount'', PInt (- 5))]" "[]" "[]" "PNum 10000" "PInt (- 5)"]
  have r2: "assess_income (Inr ''ok'') [(''income'', PNum 10000), (''amount'', PInt (- 5))] [] [] =
     Inr [(''income'', PNum 10000),
          (''loan_amount'', PInt (- 5)),
          (''annual_income'', PNum 120000),
          (''income_to_loan_ratio'', PInt 0),
          (''affordability_ok'', PBool False),
          (''assessment'', PStr ''ok'')]"
    by (simp add: m py_get_default_def num_gt_def num_lt_def del: py_mul_int.simps)
  from assess_income_guarded_division
      [of "''ok''" "[(''income'', PInt 10000)]" "[]" "[]" "PInt 10000" "PInt 0"]
  have r3: "assess_income (Inr ''ok'') [(''income'', PInt 10000)] [] [] =
     Inr [(''income'', PInt 10000),
          (''loan_amount'', PInt 0),
          (''annual_income'', PInt 120000),
          (''income_to_loan_ratio'', PInt 0),
          (''affordability_ok'', PBool False),
          (''assessment'', PStr ''ok'')]"
    by (simp add: n py_get_default_def num_gt_def num_lt_def del: py_mul_int.simps)
  from r1 r2 r3 show ?thesis by simp
qed

subsection \<open>Determinism of the aggregation\<close>

text \<open>
  Claim C4, as stated, fails: the \<open>reasoning\<close> entry of the output is the text the
  language model returned in that run, so two runs on identical application, assessment
  and document inputs differ as soon as the model words its answer differently.
\<close>

theorem aggregate_and_decide_reasoning_differs:
  "aggregate_and_decide (Inr ''Approve: strong profile.'') [] [(''affordability_ok'', PBool True)]
       [(''affordability_ok'', PBool True)] [(''risk_level'', PStr ''low'')] [] \<noteq>
   aggregate_and_decide (Inr ''Approved.'') [] [(''affordability_ok'', PBool True)]
       [(''affordability_ok'', PBool True)] [(''risk_level'', PStr ''low'')] []"
  by (simp add: aggregate_and_decide_def Let_def)

text \<open>
  Claim C4, amended. For any two runs of \<open>aggregate_and_decide\<close> on identical
  assessment inputs in which the language-model call returns, every entry of the output
  other than \<open>reasoning\<close> is identical (whatever the application and the documents
  are); \<open>reasoning\<close> is the text the model returned in that run, so the two outputs
  are identical exactly when the two model replies are.
\<close>

theorem aggregate_and_decide_deterministic_fields:
  assumes "aggregate_and_decide (Inr text1) application1 income_assessment expense_assessment
             credit_assessment documents1 = Inr d1"
    and "aggregate_and_decide (Inr text2) application2 income_assessment expense_assessment
             credit_assessment documents2 = Inr d2"
  shows "py_get d1 ''reasoning'' = PStr text1 \<and> py_get d2 ''reasoning'' = PStr text2 \<and>
         (\<forall>k. k \<noteq> ''reasoning'' \<longrightarrow> map_of d1 k = map_of d2 k) \<and>
         (d1 = d2 \<longleftrightarrow> text1 = text2)"
  using assms by (auto simp: aggregate_and_decide_def Let_def py_get_def)

theorem aggregate_and_decide_deterministic_fields_witness:
  "aggregate_and_decide (Inr ''Approved.'') [] [(''affordability_ok'', PBool True)]
       [(''affordability_ok'', PBool True)] [(''risk_level'', PStr ''low'')] [] =
     Inr [(''decision'', PStr ''approve''), (''confidence'', PStr ''high''),
          (''reasoning'', PStr ''Approved.''), (''credit_risk'', PStr ''low''),
          (''income_adequate'', PBool True), (''expenses_manageable'', PBool True)] \<and>
   aggregate_and_decide (Inr ''Approve: strong profile.'') [(''name'', PStr ''A'')]
       [(''affordability_ok'', PBool True)] [(''affordability_ok'', PBool True)]
       [(''risk_level'', PStr ''low'')] [] =
     Inr [(''decision'', PStr ''approve''), (''confidence'', PStr ''high''),
          (''reasoning'', PStr ''Approve: strong profile.''), (''credit_risk'', PStr ''low''),
          (''income_adequate'', PBool True), (''expenses_manageable'', PBool True)] \<and>
   py_get [(''decision'', PStr ''approve''), (''confidence'', PStr ''high''),
           (''reasoning'', PStr ''Approved.''), (''credit_risk'', PStr ''low''),
           (''income_adequate'', PBool True), (''expenses_manageable'', PBool True)] ''reasoning''
     = PStr ''Approved.'' \<and>
   [(''decision'', PStr ''approve''), (''confidence'', PStr ''high''),
    (''reasoning'', PStr ''Approved.''), (''credit_risk'', PStr ''low''),
    (''income_adequate'', PBool True), (''expenses_manageable'', PBool True)] \<noteq>
   [(''decision'', PStr ''approve''), (''confidence'', PStr ''high''),
    (''reasoning'', PStr ''Approve: strong profile.''), (''credit_risk'', PStr ''low''),
    (''income_adequate'', PBool True), (''expenses_manageable'', PBool True)]"
proof -
  let ?inc = "[(''affordability_ok'', PBool True)]"
  let ?cred = "[(''risk_level'', PStr ''low'')]"
  let ?d = "\<lambda>t. [(''decision'', PStr ''approve''), (''confidence'', PStr ''high''),
           (''reasoning'', PStr t), (''credit_risk'', PStr ''low''),
           (''income_adequate'', PBool True), (''expenses_manageable'', PBool True)]"
  have h1: "aggregate_and_decide (Inr ''Approved.'') [] ?inc ?inc ?cred [] = Inr (?d ''Approved.'')"
    by (simp add: aggregate_and_decide_def py_get_def py_get_default_def Let_def)
  have h2: "aggregate_and_decide (Inr ''Approve: strong profile.'') [(''name'', PStr ''A'')]
              ?inc ?inc ?cred [] = Inr (?d ''Approve: strong profile.'')"
    by (simp add: aggregate_and_decide_def py_get_def py_get_default_def Let_def)
  show ?thesis
    using aggregate_and_decide_deterministic_fields [OF h1 h2] h1 h2 by simp
qed

subsection \<open>Score validation in the credit-fetch activities\<close>

lemma score_after_tagging:
  "py_get_default (AList.update ''data_quality'' q (AList.update ''provider'' p body)) ''score'' dflt =
   py_get_default body ''score'' dflt"
  by (simp add: py_get_default_def update_conv')

lemma cibil_failure_flags:
  "fetch_credit_report_cibil http applicant_id = Inl err \<Longrightarrow>
     error_type err = ''CibilAPIError'' \<and> \<not> non_retryable err"
  by (auto simp: fetch_credit_report_cibil_def Let_def split: sum.splits pyval.splits if_splits)

lemma experian_failure_flags:
  "fetch_credit_report_experian http applicant_id = Inl err \<Longrightarrow>
     error_type err = ''ExperianAPIError'' \<and> \<not> non_retryable err"
  by (auto simp: fetch_credit_report_experian_def Let_def split: sum.splits pyval.splits if_splits)

text \<open>
  Claim C3, as stated, fails in its second half: the validation failure is raised with
  \<open>non_retryable = False\<close>.
\<close>

theorem credit_fetch_validation_failure_retryable:
  "fetch_credit_report_cibil (Inr (PDict [(''score'', PInt 200)])) ''A1'' =
     Inl \<lparr>cause = ValueError ''CIBIL'' (PInt 200), error_type = ''CibilAPIError'',
          non_retryable = False\<rparr> \<and>
   fetch_credit_report_experian (Inr (PDict [(''score'', PStr ''n/a'')])) ''A1'' =
     Inl \<lparr>cause = ValueError ''Experian'' (PStr ''n/a''), error_type = ''ExperianAPIError'',
          non_retryable = False\<rparr>"
  by (simp add: fetch_credit_report_cibil_def fetch_credit_report_experian_def
      py_get_default_def Let_def num_lt_def num_gt_def)

text \<open>
  Claim C3, amended. For every bureau response that is a JSON object, each credit-fetch
  activity (CIBIL and Experian) fails, returning no record, whenever the score (the
  \<open>int\<close> 0 when absent) is not an \<open>int\<close> or a \<open>float\<close>, or compares below 300 or
  above 850; a NaN, which compares neither way, is not covered. The failure is an
  \<open>ApplicationError\<close> of the activity's own type raised with
  \<open>non_retryable = False\<close>, and so is every failure of either activity.
\<close>

theorem credit_fetch_invalid_score_fails:
  "(score = py_get_default body ''score'' (PInt 0) \<and>
    (\<not> is_number score \<or> num_lt score (PInt 300) \<or> num_gt score (PInt 850)) \<longrightarrow>
      fetch_credit_report_cibil (Inr (PDict body)) applicant_id =
        Inl \<lparr>cause = ValueError ''CIBIL'' score, error_type = ''CibilAPIError'',
             non_retryable = False\<rparr> \<and>
      fetch_credit_report_experian (Inr (PDict body)) applicant_id =
        Inl \<lparr>cause = ValueError ''Experian'' score, error_type = ''ExperianAPIError'',
             non_retryable = False\<rparr>) \<and>
   (fetch_credit_report_cibil http applicant_id = Inl err \<longrightarrow>
      error_type err = ''CibilAPIError'' \<and> \<not> non_retryable err) \<and>
   (fetch_credit_report_experian http applicant_id = Inl err \<longrightarrow>
      error_type err = ''ExperianAPIError'' \<and> \<not> non_retryable err)"
proof (intro conjI impI)
  assume "score = py_get_default body ''score'' (PInt 0) \<and>
    (\<not> is_number score \<or> num_lt score (PInt 300) \<or> num_gt score (PInt 850))"
  then show "fetch_credit_report_cibil (Inr (PDict body)) applicant_id =
        Inl \<lparr>cause = ValueError ''CIBIL'' score, error_type = ''CibilAPIError'',
             non_retryable = False\<rparr>"
    and "fetch_credit_report_experian (Inr (PDict body)) applicant_id =
        Inl \<lparr>cause = ValueError ''Experian'' score, error_type = ''ExperianAPIError'',
             non_retryable = False\<rparr>"
    by (auto simp: fetch_credit_report_cibil_def fetch_credit_report_experian_def
        score_after_tagging Let_def)
next
  assume "fetch_credit_report_cibil http applicant_id = Inl err"
  then show "error_type err = ''CibilAPIError''" and "\<not> non_retryable err"
    using cibil_failure_flags by blast+
next
  assume "fetch_credit_report_experian http applicant_id = Inl err"
  then show "error_type err = ''ExperianAPIError''" and "\<not> non_retryable err"
    using experian_failure_flags by blast+
qed

theorem credit_fetch_invalid_score_fails_witness:
  "PInt 900 = py_get_default [(''score'', PInt 900)] ''score'' (PInt 0) \<and>
   num_gt (PInt 900) (PInt 850) \<and>
   fetch_credit_report_cibil (Inr (PDict [(''score'', PInt 900)])) ''A1'' =
     Inl \<lparr>cause = ValueError ''CIBIL'' (PInt 900), error_type = ''CibilAPIError'',
          non_retryable = False\<rparr> \<and>
   fetch_credit_report_experian (Inr (PDict [(''score'', PInt 900)])) ''A1'' =
     Inl \<lparr>cause = ValueError ''Experian'' (PInt 900), error_type = ''ExperianAPIError'',
          non_retryable = False\<rparr> \<and>
   error_type \<lparr>cause = ValueError ''CIBIL'' (PInt 900), error_type = ''CibilAPIError'',
          non_retryable = False\<rparr> = ''CibilAPIError''"
proof -
  have h1: "PInt 900 = py_get_default [(''score'', PInt 900)] ''score'' (PInt 0)"
    by (simp add: py_get_default_def)
  have h2: "num_gt (PInt 900) (PInt 850)" by (simp add: num_gt_def num_lt_def)
  from credit_fetch_invalid_score_fails
    [of "PInt 900" "[(''score'', PInt 900)]" "''A1''" "Inr (PDict [(''score'', PInt 900)])"
      "\<lparr>cause = ValueError ''CIBIL'' (PInt 900), error_type = ''CibilAPIError'',
          non_retryable = False\<rparr>"] h1 h2
  show ?thesis by simp
qed

text \<open>What the range check does guarantee of a returned record.\<close>

lemma cibil_returned_score:
  assumes "fetch_credit_report_cibil http applicant_id = Inr r"
  shows "is_number (py_get r ''score'') \<and> map_of r ''score'' \<noteq> None \<and>
         \<not> num_lt (py_get r ''score'') (PInt 300) \<and> \<not> num_gt (py_get r ''score'') (PInt 850)"
proof -
  from assms obtain body where r: "r = AList.update ''data_quality'' (PStr ''validated'')
         (AList.update ''provider'' (PStr ''CIBIL'') body)"
    and v: "is_number (py_get_default body ''score'' (PInt 0))"
      "\<not> num_lt (py_get_default body ''score'' (PInt 0)) (PInt 300)"
      "\<not> num_gt (py_get_default body ''score'' (PInt 0)) (PInt 850)"
    by (auto simp: fetch_credit_report_cibil_def score_after_tagging Let_def
        split: sum.splits pyval.splits if_splits)
  from v(2) have "map_of body ''score'' \<noteq> None"
    by (auto simp: py_get_default_def num_lt_def split: option.splits)
  with r v show ?thesis
    by (auto simp: py_get_def py_get_default_def update_conv')
qed

lemma experian_returned_score:
  assumes "fetch_credit_report_experian http applicant_id = Inr r"
  shows "is_number (py_get r ''score'') \<and> map_of r ''score'' \<noteq> None \<and>
         \<not> num_lt (py_get r ''score'') (PInt 300) \<and> \<not> num_gt (py_get r ''score'') (PInt 850)"
proof -
  from assms obtain body where r: "r = AList.update ''data_quality'' (PStr ''validated'')
         (AList.update ''provider'' (PStr ''Experian'') body)"
    and v: "is_number (py_get_default body ''score'' (PInt 0))"
      "\<not> num_lt (py_get_default body ''score'' (PInt 0)) (PInt 300)"
      "\<not> num_gt (py_get_default body ''score'' (PInt 0)) (PInt 850)"
    by (auto simp: fetch_credit_report_experian_def score_after_tagging Let_def
        split: sum.splits pyval.splits if_splits)
  from v(2) have "map_of body ''score'' \<noteq> None"
    by (auto simp: py_get_default_def num_lt_def split: option.splits)
  with r v show ?thesis
    by (auto simp: py_get_def py_get_default_def update_conv')
qed

lemma credit_fetch_missing_score_fails:
  assumes "map_of body ''score'' = None"
  shows "fetch_credit_report_cibil (Inr (PDict body)) applicant_id =
        Inl \<lparr>cause = ValueError ''CIBIL'' (PInt 0), error_type = ''CibilAPIError'',
             non_retryable = False\<rparr>"
    and "fetch_credit_report_experian (Inr (PDict body)) applicant_id =
        Inl \<lparr>cause = ValueError ''Experian'' (PInt 0), error_type = ''ExperianAPIError'',
             non_retryable = False\<rparr>"
  using assms
  by (simp_all add: fetch_credit_report_cibil_def fetch_credit_report_experian_def Let_def
      py_get_default_def update_conv' num_lt_def num_gt_def)

text \<open>
  Claim C10 asks that every credit record returned carries a numeric score within
  [300, 850]. At the failing input, a bureau response whose score is a NaN, both
  activities return the record: the NaN is a \<open>float\<close> and compares neither below 300
  nor above 850, so the range check lets it through, although it is not within
  [300, 850].
\<close>

theorem credit_fetch_nan_score_returned:
  "fetch_credit_report_cibil (Inr (PDict [(''score'', PNaN)])) ''A1'' =
     Inr [(''score'', PNaN), (''provider'', PStr ''CIBIL''), (''data_quality'', PStr ''validated'')] \<and>
   fetch_credit_report_experian (Inr (PDict [(''score'', PNaN)])) ''A1'' =
     Inr [(''score'', PNaN), (''provider'', PStr ''Experian''), (''data_quality'', PStr ''validated'')] \<and>
   num_le (PInt 300) PNaN = False \<and> num_le PNaN (PInt 850) = False"
  by (simp add: fetch_credit_report_cibil_def fetch_credit_report_experian_def
      py_get_default_def Let_def num_lt_def num_gt_def num_le_def)

theorem credit_fetch_nan_score_returned_witness:
  "\<exists>r. fetch_credit_report_cibil (Inr (PDict [(''score'', PNaN)])) ''A1'' = Inr r \<and>
        py_get r ''score'' = PNaN"
  using credit_fetch_nan_score_returned by (simp add: py_get_def)

subsection \<open>The score-validation tool against the agent's classifier\<close>

text \<open>
  Claim C8, as stated, fails: at score 630 both copies of the \<open>validate_credit_score\<close>
  tool report the risk level "high" where \<open>_determine_risk_level\<close> reports
  "medium-high".
\<close>

theorem validate_credit_score_band_differs:
  "py_get (validate_credit_score_tool 630 620) ''risk_level'' = PStr ''high'' \<and>
   call_tool_validate_credit_score [(''score'', PNum 630)] =
     Inr [(''score'', PNum 630), (''minimum_required'', PInt 620), (''is_valid'', PBool True),
          (''risk_level'', PStr ''high''), (''recommendation'', PStr ''approve'')] \<and>
   determine_risk_level 630 = ''medium-high''"
  by (simp add: validate_credit_score_tool_def call_tool_validate_credit_score_def
      determine_risk_level_def py_get_def py_get_default_def Let_def num_ge_def num_le_def)

text \<open>
  Claim C8, amended. The tool classifies with the three bands low, medium and high at
  the thresholds 750 and 650: for every score \<open>s\<close> its risk level equals that of
  \<open>_determine_risk_level\<close> except for \<open>620 \<le> s < 650\<close>, where the tool says "high".
  The MCP server's copy returns what the LangChain wrapper returns on the same numeric
  arguments: on a score and a minimum that are finite numbers (an \<open>int\<close>, a \<open>bool\<close> or
  a finite \<open>float\<close>; the minimum is the \<open>int\<close> 620 when absent) its result is the
  wrapper's at their exact values, with the two arguments echoed as they were given.
\<close>

theorem validate_credit_score_risk_level:
  "py_get (validate_credit_score_tool s m) ''risk_level'' =
     PStr (if 620 \<le> s \<and> s < 650 then ''high'' else determine_risk_level s) \<and>
   (map_of arguments ''score'' = Some (PNum s) \<and>
    map_of arguments ''minimum_required'' = Some (PNum m) \<longrightarrow>
      call_tool_validate_credit_score arguments = Inr (validate_credit_score_tool s m)) \<and>
   (map_of arguments ''score'' = Some score \<and> finite_number score \<and>
    py_get_default arguments ''minimum_required'' (PInt 620) = minimum \<and> finite_number minimum \<longrightarrow>
      call_tool_validate_credit_score arguments =
        Inr (AList.update ''score'' score (AList.update ''minimum_required'' minimum
               (validate_credit_score_tool (num_of score) (num_of minimum)))))"
proof (intro conjI impI)
  show "py_get (validate_credit_score_tool s m) ''risk_level'' =
     PStr (if 620 \<le> s \<and> s < 650 then ''high'' else determine_risk_level s)"
    by (simp add: validate_credit_score_tool_def determine_risk_level_def py_get_def Let_def)
next
  assume "map_of arguments ''score'' = Some (PNum s) \<and>
    map_of arguments ''minimum_required'' = Some (PNum m)"
  then show "call_tool_validate_credit_score arguments = Inr (validate_credit_score_tool s m)"
    by (simp add: validate_credit_score_tool_def call_tool_validate_credit_score_def
        py_get_default_def Let_def num_ge_def num_le_def)
next
  assume a: "map_of arguments ''score'' = Some score \<and> finite_number score \<and>
    py_get_default arguments ''minimum_required'' (PInt 620) = minimum \<and> finite_number minimum"
  then have fin: "is_number score" "is_number minimum" "score \<noteq> PNaN" "minimum \<noteq> PNaN"
    "score \<noteq> PPosInf" "score \<noteq> PNegInf" "minimum \<noteq> PPosInf" "minimum \<noteq> PNegInf"
    by (auto simp: finite_number_def is_inf_def)
  from a have get: "map_of arguments ''score'' = Some score"
    "py_get_default arguments ''minimum_required'' (PInt 620) = minimum" by simp_all
  show "call_tool_validate_credit_score arguments =
        Inr (AList.update ''score'' score (AList.update ''minimum_required'' minimum
               (validate_credit_score_tool (num_of score) (num_of minimum))))"
    using fin get
    by (simp add: validate_credit_score_tool_def call_tool_validate_credit_score_def
        Let_def num_ge_def num_le_def)
qed

theorem validate_credit_score_risk_level_witness:
  "py_get (validate_credit_score_tool 780 620) ''risk_level'' = PStr ''low'' \<and>
   py_get (validate_credit_score_tool 700 620) ''risk_level'' = PStr ''medium'' \<and>
   py_get (validate_credit_score_tool 630 620) ''risk_level'' = PStr ''high'' \<and>
   py_get (validate_credit_score_tool 500 620) ''risk_level'' = PStr ''high'' \<and>
   call_tool_validate_credit_score [(''score'', PNum 700), (''minimum_required'', PNum 620)] =
     Inr (validate_credit_score_tool 700 620) \<and>
   call_tool_validate_credit_score [(''score'', PInt 630)] =
     Inr [(''score'', PInt 630), (''minimum_required'', PInt 620), (''is_valid'', PBool True),
          (''risk_level'', PStr ''high''), (''recommendation'', PStr ''approve'')]"
  using validate_credit_score_risk_level [of 780 620 "[(''score'', PInt 630)]" "PInt 630" "PInt 620"]
    validate_credit_score_risk_level [of 700 620
      "[(''score'', PNum 700), (''minimum_required'', PNum 620)]" "PNum 700" "PNum 620"]
    validate_credit_score_risk_level [of 630 620 "[(''score'', PInt 630)]" "PInt 630" "PInt 620"]
    validate_credit_score_risk_level [of 500 620 "[(''score'', PInt 630)]" "PInt 630" "PInt 620"]
  by (simp add: determine_risk_level_def py_get_default_def finite_number_def is_inf_def
      validate_credit_score_tool_def)

subsection \<open>Review submissions\<close>

text \<open>
  Claim C5, as stated, fails on the endpoint: a second submission for the same workflow
  handle whose signal Temporal accepts is answered like the first, with
  \<open>signaled = true\<close>; and when the Temporal call fails the answer is the generic
  status 500 with the failure's text, not a distinct "already resolved" error.
\<close>

theorem human_review_second_submission_accepted:
  "human_review None (Inr ()) ''loan-A1'' [(''action'', PStr ''approve'')] =
     Inr [(''workflow_id'', PStr ''loan-A1''), (''signaled'', PBool True),
          (''action'', PStr ''approve'')] \<and>
   human_review None (Inr ()) ''loan-A1'' [(''action'', PStr ''reject''), (''note'', PStr ''again'')] =
     Inr [(''workflow_id'', PStr ''loan-A1''), (''signaled'', PBool True),
          (''action'', PStr ''reject'')] \<and>
   human_review None (Inl (External ''workflow execution already completed'')) ''loan-A1''
       [(''action'', PStr ''reject'')] =
     Inl (HTTPException 500 (External ''workflow execution already completed''))"
  by (simp add: human_review_def ReviewRequest_def py_get_default_def Let_def)

text \<open>
  Claim C5, amended. The endpoint \<open>human_review\<close> keeps no record of earlier
  submissions. The review it forwards is the one the validation agent returned or, when
  the agent is disabled or failed, the one \<open>ReviewRequest\<close> accepts (a string
  \<open>action\<close> and, if given, a string \<open>note\<close>). Every submission with such a review is
  answered with \<open>signaled = true\<close> and its action when the Temporal call returns, and
  with status 500 carrying that call's exception when it raises; a review
  \<open>ReviewRequest\<close> refuses, as one without \<open>action\<close>, is answered with status 500
  carrying the validation error.
\<close>

theorem human_review_stateless:
  "(bedrock = Some (Inr validated) \<or>
    (bedrock = None \<or> bedrock = Some (Inl bedrock_error)) \<and> ReviewRequest review = Inr validated \<longrightarrow>
      human_review bedrock (Inr ()) workflow_id review =
        Inr [(''workflow_id'', PStr workflow_id), (''signaled'', PBool True),
             (''action'', PStr (action validated))] \<and>
      human_review bedrock (Inl e) workflow_id review = Inl (HTTPException 500 e)) \<and>
   ((bedrock = None \<or> bedrock = Some (Inl bedrock_error)) \<and> ReviewRequest review = Inl e \<longrightarrow>
      human_review bedrock temporal workflow_id review = Inl (HTTPException 500 e)) \<and>
   (map_of review ''action'' = Some (PStr a) \<and> py_get_default review ''note'' (PStr []) = PStr n \<longrightarrow>
      ReviewRequest review = Inr \<lparr>action = a, review_note = n\<rparr>) \<and>
   (map_of review ''action'' = None \<longrightarrow>
      (\<exists>fields. ReviewRequest review = Inl (ValidationError (''action'' # fields))))"
  by (auto simp: human_review_def ReviewRequest_def Let_def
      split: option.splits sum.splits pyval.splits)

theorem human_review_stateless_witness:
  "human_review None (Inr ()) ''loan-A1'' [(''action'', PStr ''approve'')] =
     Inr [(''workflow_id'', PStr ''loan-A1''), (''signaled'', PBool True),
          (''action'', PStr ''approve'')] \<and>
   human_review None (Inl (External ''unavailable'')) ''loan-A1'' [(''action'', PStr ''approve'')] =
     Inl (HTTPException 500 (External ''unavailable'')) \<and>
   human_review (Some (Inl (External ''model error''))) (Inr ()) ''loan-A1'' [(''note'', PStr ''x'')] =
     Inl (HTTPException 500 (ValidationError [''action''])) \<and>
   human_review (Some (Inr \<lparr>action = ''reject'', review_note = ''late''\<rparr>)) (Inr ()) ''loan-A1'' [] =
     Inr [(''workflow_id'', PStr ''loan-A1''), (''signaled'', PBool True),
          (''action'', PStr ''reject'')]"
proof -
  let ?review = "[(''action'', PStr ''approve'')]"
  have v: "ReviewRequest ?review = Inr \<lparr>action = ''approve'', review_note = []\<rparr>"
    by (simp add: ReviewRequest_def py_get_default_def)
  have w: "ReviewRequest [(''note'', PStr ''x'')] = Inl (ValidationError [''action''])"
    by (simp add: ReviewRequest_def py_get_default_def)
  from human_review_stateless [of None "\<lparr>action = ''approve'', review_note = []\<rparr>" "External ''x''"
      ?review "''loan-A1''" "External ''unavailable''" "Inr ()" "''approve''" "[]"] v
  have r1: "human_review None (Inr ()) ''loan-A1'' ?review =
     Inr [(''workflow_id'', PStr ''loan-A1''), (''signaled'', PBool True),
          (''action'', PStr ''approve'')]"
    and r2: "human_review None (Inl (External ''unavailable'')) ''loan-A1'' ?review =
     Inl (HTTPException 500 (External ''unavailable''))"
    by simp_all
  from human_review_stateless [of "Some (Inl (External ''model error''))"
      "\<lparr>action = ''approve'', review_note = []\<rparr>" "External ''model error''"
      "[(''note'', PStr ''x'')]" "''loan-A1''" "ValidationError [''action'']" "Inr ()" "''approve''" "[]"] w
  have r3: "human_review (Some (Inl (External ''model error''))) (Inr ()) ''loan-A1''
      [(''note'', PStr ''x'')] = Inl (HTTPException 500 (ValidationError [''action'']))"
    by simp
  from human_review_stateless [of "Some (Inr \<lparr>action = ''reject'', review_note = ''late''\<rparr>)"
      "\<lparr>action = ''reject'', review_note = ''late''\<rparr>" "External ''x''"
      "[]" "''loan-A1''" "External ''unavailable''" "Inr ()" "''approve''" "[]"]
  have r4: "human_review (Some (Inr \<lparr>action = ''reject'', review_note = ''late''\<rparr>)) (Inr ())
      ''loan-A1'' [] =
     Inr [(''workflow_id'', PStr ''loan-A1''), (''signaled'', PBool True),
          (''action'', PStr ''reject'')]"
    by simp
  from r1 r2 r3 r4 show ?thesis by simp
qed

end
